theory Spec2Isabelle
  imports Complex_Main "HOL-Library.Word"
begin

section \<open>Scalar types of the source\<close>

text \<open>
  \<^verbatim>\<open>Tick\<close> is gem5's unsigned 64-bit tick count; \<^verbatim>\<open>uint32_t\<close> is a 32-bit word.
  Comparison on words is the unsigned one, subtraction wraps.
\<close>

type_synonym Tick = "64 word"
type_synonym uint32_t = "32 word"

text \<open>
  A C++ \<^verbatim>\<open>double\<close>. Rounding is abstracted: a finite value carries a real number and
  arithmetic on finite values is exact. The special values are kept, because the cost
  formula divides by quantities that a configuration can make zero: a finite non-zero
  value divided by zero is an infinity, zero divided by zero is a NaN, and every
  comparison with a NaN is false. Zero stands for the positive zero (every divisor of
  the source is converted from an unsigned integer or from an \<^verbatim>\<open>int\<close>).
\<close>

datatype double = Finite real | PosInf | NegInf | NaN

fun dsgn :: "double \<Rightarrow> real" where
  "dsgn (Finite a) = sgn a"
| "dsgn PosInf = 1"
| "dsgn NegInf = - 1"
| "dsgn NaN = 0"

fun dneg :: "double \<Rightarrow> double" where
  "dneg (Finite a) = Finite (- a)"
| "dneg PosInf = NegInf"
| "dneg NegInf = PosInf"
| "dneg NaN = NaN"

fun dadd :: "double \<Rightarrow> double \<Rightarrow> double" where
  "dadd (Finite a) (Finite b) = Finite (a + b)"
| "dadd NaN y = NaN"
| "dadd x NaN = NaN"
| "dadd PosInf NegInf = NaN"
| "dadd NegInf PosInf = NaN"
| "dadd PosInf y = PosInf"
| "dadd NegInf y = NegInf"
| "dadd (Finite a) y = y"

definition dsub :: "double \<Rightarrow> double \<Rightarrow> double" where
  "dsub x y = dadd x (dneg y)"

fun dmul :: "double \<Rightarrow> double \<Rightarrow> double" where
  "dmul (Finite a) (Finite b) = Finite (a * b)"
| "dmul NaN y = NaN"
| "dmul x NaN = NaN"
| "dmul x y =
     (if dsgn x * dsgn y = 0 then NaN
      else if 0 < dsgn x * dsgn y then PosInf else NegInf)"

fun ddiv :: "double \<Rightarrow> double \<Rightarrow> double" where
  "ddiv (Finite a) (Finite b) =
     (if b \<noteq> 0 then Finite (a / b)
      else if a = 0 then NaN
      else if 0 < a then PosInf else NegInf)"
| "ddiv NaN y = NaN"
| "ddiv x NaN = NaN"
| "ddiv (Finite a) y = Finite 0"
| "ddiv x (Finite b) =
     (if (0 \<le> b) = (x = PosInf) then PosInf else NegInf)"
| "ddiv x y = NaN"

text \<open>The C++ operators \<^verbatim>\<open><\<close> and \<^verbatim>\<open><=\<close> on doubles.\<close>

fun dless :: "double \<Rightarrow> double \<Rightarrow> bool" where
  "dless (Finite a) (Finite b) = (a < b)"
| "dless NaN y = False"
| "dless x NaN = False"
| "dless x NegInf = False"
| "dless PosInf y = False"
| "dless x PosInf = True"
| "dless NegInf y = True"

fun dle :: "double \<Rightarrow> double \<Rightarrow> bool" where
  "dle (Finite a) (Finite b) = (a \<le> b)"
| "dle NaN y = False"
| "dle x NaN = False"
| "dle NegInf y = True"
| "dle x PosInf = True"
| "dle x y = False"

text \<open>\<^verbatim>\<open>std::max(a, b)\<close> is \<^verbatim>\<open>(a < b) ? b : a\<close>.\<close>

definition dmax :: "double \<Rightarrow> double \<Rightarrow> double" where
  "dmax a b = (if dless a b then b else a)"

text \<open>The casts \<^verbatim>\<open>(double)\<close> from the integer types of the source.\<close>

definition double_of_Tick :: "Tick \<Rightarrow> double" where
  "double_of_Tick t = Finite (real (unat t))"

definition double_of_uint32 :: "uint32_t \<Rightarrow> double" where
  "double_of_uint32 w = Finite (real (unat w))"

definition double_of_int :: "int \<Rightarrow> double" where
  "double_of_int i = Finite (real_of_int i)"

definition double_of_nat :: "nat \<Rightarrow> double" where
  "double_of_nat n = Finite (real n)"


section \<open>The saturating counter\<close>

text \<open>
  Modelled from the spec: the class \<^verbatim>\<open>SatCounter\<close> of \<^verbatim>\<open>cpu/pred/sat_counter.hh\<close> is
  used by the replacement data and is not among the source files. The spec gives its
  contract: a bounded counter saturating at \<open>2^bits - 1\<close>, with \<^verbatim>\<open>increment()\<close> (no-op
  once at the maximum), \<^verbatim>\<open>read()\<close> and \<^verbatim>\<open>reset()\<close> (to 0). The record holds the bit width
  and the current count.
\<close>

record SatCounter =
  bits :: nat
  counter :: nat

text \<open>Modelled from the spec: the constructor \<^verbatim>\<open>SatCounter(bits)\<close>; a fresh counter reads 0.\<close>

definition SatCounter_new :: "int \<Rightarrow> SatCounter" where
  "SatCounter_new b = \<lparr>bits = nat b, counter = 0\<rparr>"

text \<open>Modelled from the spec: the saturating bound \<open>2^bits - 1\<close>.\<close>

definition maxVal :: "SatCounter \<Rightarrow> nat" where
  "maxVal c = 2 ^ bits c - 1"

text \<open>Modelled from the spec: \<^verbatim>\<open>increment()\<close>, a no-op once at the maximum.\<close>

definition increment :: "SatCounter \<Rightarrow> SatCounter" where
  "increment c = (if counter c < maxVal c then c\<lparr>counter := counter c + 1\<rparr> else c)"

text \<open>Modelled from the spec: \<^verbatim>\<open>read()\<close>.\<close>

definition read :: "SatCounter \<Rightarrow> nat" where
  "read c = counter c"

text \<open>Modelled from the spec: \<^verbatim>\<open>reset()\<close>, back to 0.\<close>

definition reset_counter :: "SatCounter \<Rightarrow> SatCounter" where
  "reset_counter c = c\<lparr>counter := 0\<rparr>"


section \<open>Replacement data and policy parameters\<close>

text \<open>\<^verbatim>\<open>struct EnergyAwareReplData\<close> of \<^verbatim>\<open>energy_aware_rp.hh\<close>.\<close>

record EnergyAwareReplData =
  lastTouchTick :: Tick
  accessFreq :: SatCounter
  writeCount :: SatCounter
  bytesUsed :: uint32_t
  isDirty :: bool
  predictedReuse :: uint32_t
  energyCost :: double

text \<open>The constructor \<^verbatim>\<open>EnergyAwareReplData(int freq_bits, int write_bits)\<close>.\<close>

definition EnergyAwareReplData_new :: "int \<Rightarrow> int \<Rightarrow> EnergyAwareReplData" where
  "EnergyAwareReplData_new freq_bits write_bits =
     \<lparr>lastTouchTick = 0, accessFreq = SatCounter_new freq_bits,
      writeCount = SatCounter_new write_bits, bytesUsed = 0, isDirty = False,
      predictedReuse = 0, energyCost = Finite 0\<rparr>"

text \<open>
  The fields of \<^verbatim>\<open>EnergyAwareRPParams\<close> that the constructor reads (the struct is
  generated by the build and not among the source files; each field has the type of the
  member it initialises).
\<close>

record EnergyAwareRPParams =
  frequency_bits :: int
  write_bits :: int
  recency_weight :: double
  frequency_weight :: double
  write_weight :: double
  dirty_weight :: double
  utilization_weight :: double
  pcm_write_cost :: double
  pcm_read_cost :: double
  block_size :: uint32_t

text \<open>The private members of \<^verbatim>\<open>class EnergyAwareRP\<close>.\<close>

record EnergyAwareRP =
  frequencyBits :: int
  writeBits :: int
  recencyWeight :: double
  frequencyWeight :: double
  writeWeight :: double
  dirtyWeight :: double
  utilizationWeight :: double
  pcmWriteCost :: double
  pcmReadCost :: double
  blockSize :: uint32_t

text \<open>
  The only failure of the source is the \<^verbatim>\<open>assert\<close> of \<^verbatim>\<open>getVictim\<close>.
\<close>

datatype error = AssertionFailure

text \<open>
  The constructor \<^verbatim>\<open>EnergyAwareRP::EnergyAwareRP(const Params *p)\<close>: a member
  initialiser list and an empty body.
\<close>

definition EnergyAwareRP_new :: "EnergyAwareRPParams \<Rightarrow> EnergyAwareRP" where
  "EnergyAwareRP_new p =
     \<lparr>frequencyBits = frequency_bits p, writeBits = write_bits p,
      recencyWeight = recency_weight p, frequencyWeight = frequency_weight p,
      writeWeight = write_weight p, dirtyWeight = dirty_weight p,
      utilizationWeight = utilization_weight p, pcmWriteCost = pcm_write_cost p,
      pcmReadCost = pcm_read_cost p, blockSize = block_size p\<rparr>"

text \<open>
  \<^verbatim>\<open>EnergyAwareRPParams::create()\<close> returns the new policy; it has no path on which
  construction is refused, so the result is always \<open>Inr\<close>.
\<close>

definition create :: "EnergyAwareRPParams \<Rightarrow> error + EnergyAwareRP" where
  "create p = Inr (EnergyAwareRP_new p)"


section \<open>The cost function\<close>

text \<open>
  A mathematical integer brought back into the range of the 32-bit two's complement
  \<^verbatim>\<open>int\<close>.
\<close>

definition wrap_int32 :: "int \<Rightarrow> int" where
  "wrap_int32 x = (x + 2 ^ 31) mod 2 ^ 32 - 2 ^ 31"

text \<open>
  \<^verbatim>\<open>(1 << n) - 1\<close> on the 32-bit \<^verbatim>\<open>int\<close>. For \<open>0 \<le> n < 31\<close> it is \<open>2^n - 1\<close>. Outside
  that range C++ leaves the expression undefined; the model takes what the machine
  computes: the shift instruction uses the count modulo 32 and the arithmetic wraps
  around in 32 bits. So width 31 gives \<open>2^31 - 1\<close> and width 32 gives 0, as width 0
  does.
\<close>

definition shl1_minus1 :: "int \<Rightarrow> int" where
  "shl1_minus1 n = wrap_int32 (wrap_int32 (2 ^ nat (n mod 32)) - 1)"

text \<open>
  The factors of \<^verbatim>\<open>calculateEnergyCost\<close>, one definition per local variable of the
  source. \<^verbatim>\<open>curTick()\<close> is passed as the argument \<open>currentTick\<close>.
\<close>

definition recencyFactor :: "Tick \<Rightarrow> EnergyAwareReplData \<Rightarrow> double" where
  "recencyFactor currentTick repl_data =
     (if currentTick > lastTouchTick repl_data
      then ddiv (double_of_Tick (currentTick - lastTouchTick repl_data))
                (double_of_Tick currentTick)
      else Finite 0)"

definition maxFreq :: "EnergyAwareRP \<Rightarrow> double" where
  "maxFreq rp = double_of_int (shl1_minus1 (frequencyBits rp))"

definition frequencyFactor :: "EnergyAwareRP \<Rightarrow> EnergyAwareReplData \<Rightarrow> double" where
  "frequencyFactor rp repl_data =
     dsub (Finite 1) (ddiv (double_of_nat (read (accessFreq repl_data))) (maxFreq rp))"

definition maxWrites :: "EnergyAwareRP \<Rightarrow> double" where
  "maxWrites rp = double_of_int (shl1_minus1 (writeBits rp))"

definition writeIntensity :: "EnergyAwareRP \<Rightarrow> EnergyAwareReplData \<Rightarrow> double" where
  "writeIntensity rp repl_data =
     ddiv (double_of_nat (read (writeCount repl_data))) (maxWrites rp)"

definition dirtyFactor :: "EnergyAwareReplData \<Rightarrow> double" where
  "dirtyFactor repl_data = (if isDirty repl_data then Finite 1 else Finite 0)"

definition utilizationFactor :: "EnergyAwareRP \<Rightarrow> EnergyAwareReplData \<Rightarrow> double" where
  "utilizationFactor rp repl_data =
     dsub (Finite 1)
       (ddiv (double_of_uint32 (bytesUsed repl_data)) (double_of_uint32 (blockSize rp)))"

definition futureReadCost :: "EnergyAwareRP \<Rightarrow> EnergyAwareReplData \<Rightarrow> double" where
  "futureReadCost rp repl_data =
     dmul (double_of_nat (read (accessFreq repl_data))) (pcmReadCost rp)"

definition futureWriteCost :: "EnergyAwareRP \<Rightarrow> EnergyAwareReplData \<Rightarrow> double" where
  "futureWriteCost rp repl_data =
     dmul (double_of_nat (read (writeCount repl_data))) (pcmWriteCost rp)"

definition writeBackCost :: "EnergyAwareRP \<Rightarrow> EnergyAwareReplData \<Rightarrow> double" where
  "writeBackCost rp repl_data = (if isDirty repl_data then pcmWriteCost rp else Finite 0)"

text \<open>The combined sum, associated to the left as the C++ expression is.\<close>

definition rawEnergyCost :: "EnergyAwareRP \<Rightarrow> Tick \<Rightarrow> EnergyAwareReplData \<Rightarrow> double" where
  "rawEnergyCost rp currentTick repl_data =
     dsub
       (dadd
         (dadd
           (dadd
             (dadd
               (dadd (dmul (recencyWeight rp) (recencyFactor currentTick repl_data))
                     (dmul (frequencyWeight rp) (frequencyFactor rp repl_data)))
               (dmul (writeWeight rp) (writeIntensity rp repl_data)))
             (dmul (dirtyWeight rp) (dirtyFactor repl_data)))
           (dmul (utilizationWeight rp) (utilizationFactor rp repl_data)))
         (dmul (Finite (1 / 10))
               (dadd (futureReadCost rp repl_data) (futureWriteCost rp repl_data))))
       (dmul (Finite (2 / 10)) (writeBackCost rp repl_data))"

definition calculateEnergyCost :: "EnergyAwareRP \<Rightarrow> Tick \<Rightarrow> EnergyAwareReplData \<Rightarrow> double" where
  "calculateEnergyCost rp currentTick repl_data =
     dmax (Finite 0) (rawEnergyCost rp currentTick repl_data)"


section \<open>The operations on replacement data\<close>

text \<open>
  Each operation mutates the replacement data it is given; the model returns the
  updated record. Operations that read \<^verbatim>\<open>curTick()\<close> take it as the argument \<open>now\<close>.
  The field assignments are in the order of the source, so the cost is computed on the
  data as already changed.
\<close>

definition invalidate :: "EnergyAwareRP \<Rightarrow> EnergyAwareReplData \<Rightarrow> EnergyAwareReplData" where
  "invalidate rp repl_data =
     repl_data\<lparr>lastTouchTick := 0,
               accessFreq := reset_counter (accessFreq repl_data),
               writeCount := reset_counter (writeCount repl_data),
               bytesUsed := 0, isDirty := False, predictedReuse := 0,
               energyCost := Finite 0\<rparr>"

definition touch :: "EnergyAwareRP \<Rightarrow> Tick \<Rightarrow> EnergyAwareReplData \<Rightarrow> EnergyAwareReplData" where
  "touch rp now repl_data =
     (let d = repl_data\<lparr>lastTouchTick := now,
                        accessFreq := increment (accessFreq repl_data)\<rparr>
      in d\<lparr>energyCost := calculateEnergyCost rp now d\<rparr>)"

definition reset :: "EnergyAwareRP \<Rightarrow> Tick \<Rightarrow> EnergyAwareReplData \<Rightarrow> EnergyAwareReplData" where
  "reset rp now repl_data =
     (let d = repl_data\<lparr>lastTouchTick := now,
                        accessFreq := increment (accessFreq repl_data),
                        writeCount := reset_counter (writeCount repl_data),
                        bytesUsed := blockSize rp, isDirty := False,
                        predictedReuse := 1\<rparr>
      in d\<lparr>energyCost := calculateEnergyCost rp now d\<rparr>)"

definition instantiateEntry :: "EnergyAwareRP \<Rightarrow> EnergyAwareReplData" where
  "instantiateEntry rp = EnergyAwareReplData_new (frequencyBits rp) (writeBits rp)"

definition updateWriteStats :: "EnergyAwareRP \<Rightarrow> Tick \<Rightarrow> EnergyAwareReplData \<Rightarrow> EnergyAwareReplData" where
  "updateWriteStats rp now repl_data =
     (let d = repl_data\<lparr>writeCount := increment (writeCount repl_data)\<rparr>
      in d\<lparr>energyCost := calculateEnergyCost rp now d\<rparr>)"

definition updateUtilization ::
  "EnergyAwareRP \<Rightarrow> Tick \<Rightarrow> EnergyAwareReplData \<Rightarrow> uint32_t \<Rightarrow> EnergyAwareReplData" where
  "updateUtilization rp now repl_data bytes_accessed =
     (let d = repl_data\<lparr>bytesUsed := max (bytesUsed repl_data) bytes_accessed\<rparr>
      in d\<lparr>energyCost := calculateEnergyCost rp now d\<rparr>)"

definition setDirtyStatus ::
  "EnergyAwareRP \<Rightarrow> Tick \<Rightarrow> EnergyAwareReplData \<Rightarrow> bool \<Rightarrow> EnergyAwareReplData" where
  "setDirtyStatus rp now repl_data is_dirty =
     (let d = repl_data\<lparr>isDirty := is_dirty\<rparr>
      in d\<lparr>energyCost := calculateEnergyCost rp now d\<rparr>)"


section \<open>Victim selection\<close>

text \<open>
  The candidates are given as the list of their replacement data, in the caller's order;
  a candidate is named by its position. The loop of \<^verbatim>\<open>getVictim\<close> visits every
  candidate (the first one too), stores the recomputed cost in it, and replaces the
  victim when the cost is greater than \<open>maxCost\<close>. It returns the victim's position
  and the candidates as the loop leaves them.
\<close>

fun getVictim_loop ::
  "EnergyAwareRP \<Rightarrow> Tick \<Rightarrow> EnergyAwareReplData list \<Rightarrow> nat \<Rightarrow> nat \<Rightarrow> double
     \<Rightarrow> nat \<times> EnergyAwareReplData list" where
  "getVictim_loop rp now [] i victim maxCost = (victim, [])"
| "getVictim_loop rp now (repl_data # rest) i victim maxCost =
     (let cost = calculateEnergyCost rp now repl_data;
          repl_data' = repl_data\<lparr>energyCost := cost\<rparr>;
          r = (if dless maxCost cost
               then getVictim_loop rp now rest (i + 1) i cost
               else getVictim_loop rp now rest (i + 1) victim maxCost)
      in (fst r, repl_data' # snd r))"

text \<open>
  Before the loop, \<open>victim\<close> is the first candidate and \<open>maxCost\<close> is read from
  that candidate's stored \<^verbatim>\<open>energyCost\<close> field. An empty candidate list fails the
  assertion.
\<close>

definition getVictim ::
  "EnergyAwareRP \<Rightarrow> Tick \<Rightarrow> EnergyAwareReplData list
     \<Rightarrow> error + nat \<times> EnergyAwareReplData list" where
  "getVictim rp now candidates =
     (case candidates of
        [] \<Rightarrow> Inl AssertionFailure
      | first # _ \<Rightarrow> Inr (getVictim_loop rp now candidates 0 0 (energyCost first)))"


section \<open>Sequences of calls\<close>

text \<open>
  The calls a cache makes on one line's replacement data, as a datatype, so that
  properties can be stated for every operation at once.
\<close>

datatype operation =
    Reset Tick
  | Touch Tick
  | Invalidate
  | UpdateWriteStats Tick
  | UpdateUtilization Tick uint32_t
  | SetDirtyStatus Tick bool

fun apply_operation ::
  "EnergyAwareRP \<Rightarrow> operation \<Rightarrow> EnergyAwareReplData \<Rightarrow> EnergyAwareReplData" where
  "apply_operation rp (Reset now) m = reset rp now m"
| "apply_operation rp (Touch now) m = touch rp now m"
| "apply_operation rp Invalidate m = invalidate rp m"
| "apply_operation rp (UpdateWriteStats now) m = updateWriteStats rp now m"
| "apply_operation rp (UpdateUtilization now b) m = updateUtilization rp now m b"
| "apply_operation rp (SetDirtyStatus now d) m = setDirtyStatus rp now m d"

text \<open>The byte count passed to \<^verbatim>\<open>updateUtilization\<close> is at most the block size.\<close>

fun within_block :: "EnergyAwareRP \<Rightarrow> operation \<Rightarrow> bool" where
  "within_block rp (UpdateUtilization now b) = (b \<le> blockSize rp)"
| "within_block rp _ = True"

text \<open>A sequence of calls on one line, left to right.\<close>

fun run_operations ::
  "EnergyAwareRP \<Rightarrow> EnergyAwareReplData \<Rightarrow> operation list \<Rightarrow> EnergyAwareReplData" where
  "run_operations rp m [] = m"
| "run_operations rp m (op # ops) = run_operations rp (apply_operation rp op m) ops"

text \<open>A sequence of \<^verbatim>\<open>updateUtilization\<close> calls, each with its tick and its byte count.\<close>

fun updateUtilization_calls ::
  "EnergyAwareRP \<Rightarrow> EnergyAwareReplData \<Rightarrow> (Tick \<times> uint32_t) list \<Rightarrow> EnergyAwareReplData" where
  "updateUtilization_calls rp m [] = m"
| "updateUtilization_calls rp m ((now, b) # calls) =
     updateUtilization_calls rp (updateUtilization rp now m b) calls"


section \<open>Concrete configurations and lines\<close>

text \<open>The configuration of the spec's end-to-end vector.\<close>

definition spec_config :: EnergyAwareRP where
  "spec_config =
     \<lparr>frequencyBits = 4, writeBits = 4, recencyWeight = Finite (3 / 10),
      frequencyWeight = Finite (2 / 10), writeWeight = Finite (2 / 10),
      dirtyWeight = Finite (2 / 10), utilizationWeight = Finite (1 / 10),
      pcmWriteCost = Finite 5, pcmReadCost = Finite 1, blockSize = 64\<rparr>"

text \<open>A fresh line filled at tick 100, and the same line after a hit at tick 200.\<close>

definition line_after_reset :: EnergyAwareReplData where
  "line_after_reset = reset spec_config 100 (instantiateEntry spec_config)"

definition line_after_touch :: EnergyAwareReplData where
  "line_after_touch = touch spec_config 200 line_after_reset"

text \<open>The same configuration with a negative recency weight, and two lines under it.\<close>

definition negative_recency_config :: EnergyAwareRP where
  "negative_recency_config = spec_config\<lparr>recencyWeight := Finite (- 3 / 10)\<rparr>"

definition lineA :: EnergyAwareReplData where
  "lineA = reset negative_recency_config 100 (instantiateEntry negative_recency_config)"

definition lineB :: EnergyAwareReplData where
  "lineB = touch negative_recency_config 200
             (reset negative_recency_config 100 (instantiateEntry negative_recency_config))"

text \<open>Parameters with zero-width counters.\<close>

definition zero_bits_params :: EnergyAwareRPParams where
  "zero_bits_params =
     \<lparr>frequency_bits = 0, write_bits = 0, recency_weight = Finite (3 / 10),
      frequency_weight = Finite (2 / 10), write_weight = Finite (2 / 10),
      dirty_weight = Finite (2 / 10), utilization_weight = Finite (1 / 10),
      pcm_write_cost = Finite 5, pcm_read_cost = Finite 1, block_size = 64\<rparr>"

text \<open>The same parameters as a constructed policy.\<close>

definition zero_bits_config :: EnergyAwareRP where
  "zero_bits_config = EnergyAwareRP_new zero_bits_params"

text \<open>A double that is neither an infinity nor a NaN; one that is moreover not negative.\<close>

definition is_finite :: "double \<Rightarrow> bool" where
  "is_finite x = (case x of Finite r \<Rightarrow> True | _ \<Rightarrow> False)"

definition nonneg_finite :: "double \<Rightarrow> bool" where
  "nonneg_finite x = (case x of Finite r \<Rightarrow> 0 \<le> r | _ \<Rightarrow> False)"

text \<open>
  The part of the score that comes from the recency, frequency and utilization factors
  alone: the first, second and fifth terms of the sum in \<^verbatim>\<open>calculateEnergyCost\<close>, added
  in that order. The name and the selection follow claim C10 (``the baseline eviction
  score attainable from those three factors''); the source computes the whole sum only.
\<close>

definition baselineScore :: "EnergyAwareRP \<Rightarrow> Tick \<Rightarrow> EnergyAwareReplData \<Rightarrow> double" where
  "baselineScore rp currentTick repl_data =
     dadd
       (dadd (dmul (recencyWeight rp) (recencyFactor currentTick repl_data))
             (dmul (frequencyWeight rp) (frequencyFactor rp repl_data)))
       (dmul (utilizationWeight rp) (utilizationFactor rp repl_data))"

text \<open>
  ``Approximately \<open>v\<close>'' for a value printed with four decimals: finite and within
  half a unit of the fourth decimal.
\<close>

definition approx4 :: "double \<Rightarrow> real \<Rightarrow> bool" where
  "approx4 x v = (case x of Finite r \<Rightarrow> \<bar>r - v\<bar> \<le> 5 / 100000 | _ \<Rightarrow> False)"


section \<open>Basic facts\<close>

lemmas counter_defs = SatCounter_new_def maxVal_def increment_def read_def reset_counter_def

lemmas cast_defs = double_of_Tick_def double_of_uint32_def double_of_int_def double_of_nat_def

lemmas factor_defs = recencyFactor_def maxFreq_def frequencyFactor_def maxWrites_def
  writeIntensity_def dirtyFactor_def utilizationFactor_def futureReadCost_def
  futureWriteCost_def writeBackCost_def shl1_minus1_def wrap_int32_def

lemmas cost_defs = calculateEnergyCost_def rawEnergyCost_def dmax_def dsub_def

lemmas op_defs = invalidate_def touch_def reset_def instantiateEntry_def
  EnergyAwareReplData_new_def updateWriteStats_def updateUtilization_def setDirtyStatus_def

lemma dle_zero_dmax: "dle (Finite 0) (dmax (Finite 0) x)"
  by (cases x) (simp_all add: dmax_def)

lemma unsigned_pos_nonzero: "0 < w \<Longrightarrow> (unsigned w :: real) \<noteq> 0"
  for w :: "'a::len word"
  by (simp add: unsigned_eq_0_iff word_greater_zero_iff)

text \<open>In the range where C++ defines it, the shift is the power of two.\<close>

lemma shl1_minus1_in_range:
  assumes "0 \<le> n" and "n < 31"
  shows "shl1_minus1 n = 2 ^ nat n - 1"
proof -
  have m: "n mod 32 = n"
    using assms by simp
  have "nat n \<le> 30"
    using assms by simp
  then have "(2::int) ^ nat n \<le> 2 ^ 30"
    by (intro power_increasing) simp_all
  then have hi: "(2::int) ^ nat n \<le> 1073741824"
    by simp
  have lo: "(1::int) \<le> 2 ^ nat n"
    by simp
  have w1: "wrap_int32 (2 ^ nat n) = 2 ^ nat n"
    using hi lo by (simp add: wrap_int32_def)
  have w2: "wrap_int32 (2 ^ nat n - 1) = 2 ^ nat n - 1"
    using hi lo by (simp add: wrap_int32_def)
  show ?thesis
    by (simp add: shl1_minus1_def m w1 w2)
qed

lemma shl1_minus1_pos: "0 < n \<Longrightarrow> n < 31 \<Longrightarrow> 0 < shl1_minus1 n"
proof -
  assume n: "0 < n" "n < 31"
  then have "0 < nat n" by simp
  then have "(2::int) ^ 1 \<le> 2 ^ nat n"
    by (intro power_increasing) simp_all
  then show ?thesis
    using n by (simp add: shl1_minus1_in_range)
qed

text \<open>The two lines of the end-to-end vector, field by field.\<close>

lemma line_after_reset_eq:
  "line_after_reset =
     \<lparr>lastTouchTick = 100, accessFreq = \<lparr>bits = 4, counter = 1\<rparr>,
      writeCount = \<lparr>bits = 4, counter = 0\<rparr>, bytesUsed = 64, isDirty = False,
      predictedReuse = 1, energyCost = Finite (43 / 150)\<rparr>"
  by (simp add: line_after_reset_def spec_config_def op_defs cost_defs factor_defs
      cast_defs counter_defs Let_def)

lemma line_after_touch_eq:
  "line_after_touch =
     \<lparr>lastTouchTick = 200, accessFreq = \<lparr>bits = 4, counter = 2\<rparr>,
      writeCount = \<lparr>bits = 4, counter = 0\<rparr>, bytesUsed = 64, isDirty = False,
      predictedReuse = 1, energyCost = Finite (28 / 75)\<rparr>"
  unfolding line_after_touch_def line_after_reset_eq
  by (simp add: spec_config_def op_defs cost_defs factor_defs cast_defs counter_defs Let_def)

text \<open>The factors of the cost on a line that \<^verbatim>\<open>invalidate\<close> has just cleared.\<close>

lemma recencyFactor_invalidate: "0 < t \<Longrightarrow> recencyFactor t (invalidate rp m) = Finite 1"
  by (simp add: recencyFactor_def invalidate_def double_of_Tick_def unsigned_pos_nonzero)

lemma frequencyFactor_invalidate:
  "0 < frequencyBits rp \<Longrightarrow> frequencyBits rp < 31 \<Longrightarrow>
   frequencyFactor rp (invalidate rp m) = Finite 1"
  using shl1_minus1_pos [of "frequencyBits rp"]
  by (simp add: frequencyFactor_def maxFreq_def invalidate_def read_def reset_counter_def
      double_of_nat_def double_of_int_def dsub_def)

lemma writeIntensity_invalidate:
  "0 < writeBits rp \<Longrightarrow> writeBits rp < 31 \<Longrightarrow>
   writeIntensity rp (invalidate rp m) = Finite 0"
  using shl1_minus1_pos [of "writeBits rp"]
  by (simp add: writeIntensity_def maxWrites_def invalidate_def read_def reset_counter_def
      double_of_nat_def double_of_int_def)

lemma utilizationFactor_invalidate:
  "0 < blockSize rp \<Longrightarrow> utilizationFactor rp (invalidate rp m) = Finite 1"
  by (simp add: utilizationFactor_def invalidate_def double_of_uint32_def dsub_def
      unsigned_pos_nonzero)

lemma dirtyFactor_invalidate: "dirtyFactor (invalidate rp m) = Finite 0"
  by (simp add: dirtyFactor_def invalidate_def)

lemma writeBackCost_invalidate: "writeBackCost rp (invalidate rp m) = Finite 0"
  by (simp add: writeBackCost_def invalidate_def)

lemma futureReadCost_invalidate:
  "pcmReadCost rp = Finite rc \<Longrightarrow> futureReadCost rp (invalidate rp m) = Finite 0"
  by (simp add: futureReadCost_def invalidate_def read_def reset_counter_def double_of_nat_def)

lemma futureWriteCost_invalidate:
  "pcmWriteCost rp = Finite wc \<Longrightarrow> futureWriteCost rp (invalidate rp m) = Finite 0"
  by (simp add: futureWriteCost_def invalidate_def read_def reset_counter_def double_of_nat_def)

text \<open>Products and sums with the constants 1 and 0.\<close>

lemma dmul_one: "dmul x (Finite 1) = x"
  by (cases x) simp_all

lemma dadd_zero: "dadd x (Finite 0) = x"
  by (cases x) simp_all

lemma dmul_finite_zero: "is_finite x \<Longrightarrow> dmul x (Finite 0) = Finite 0"
  by (cases x) (simp_all add: is_finite_def)

lemma zero_dmul_finite: "is_finite x \<Longrightarrow> dmul (Finite 0) x = Finite 0"
  by (cases x) (simp_all add: is_finite_def)

text \<open>
  The three factors are finite and at most 1 on every line, under counter widths and a
  block size that make the divisors positive.
\<close>

lemma ratio_le_one: "a \<le> b \<Longrightarrow> 0 < b \<Longrightarrow> real a / real b \<le> 1"
  by simp

lemma ratio_nonneg: "0 \<le> real a / real b"
  by simp

lemma recencyFactor_le_one: "\<exists>r. recencyFactor t m = Finite r \<and> r \<le> 1"
proof (cases "t > lastTouchTick m")
  case True
  then have pos: "0 < t"
    by (cases "t = 0") (simp_all add: word_greater_zero_iff)
  then have nz: "(unsigned t :: real) \<noteq> 0"
    by (rule unsigned_pos_nonzero)
  have "t - lastTouchTick m \<le> t"
    using True by (simp add: word_sub_le less_imp_le)
  then have "unat (t - lastTouchTick m) \<le> unat t"
    by (simp add: word_le_nat_alt)
  moreover have "0 < unat t"
    using pos by (simp add: unat_gt_0 word_greater_zero_iff)
  ultimately have "real (unat (t - lastTouchTick m)) / real (unat t) \<le> 1"
    by (rule ratio_le_one)
  then show ?thesis
    using True nz by (simp add: recencyFactor_def double_of_Tick_def)
next
  case False
  then show ?thesis by (simp add: recencyFactor_def)
qed

lemma frequencyFactor_le_one:
  assumes "0 < frequencyBits rp" and "frequencyBits rp < 31"
  shows "\<exists>r. frequencyFactor rp m = Finite r \<and> r \<le> 1"
proof -
  have k: "0 < shl1_minus1 (frequencyBits rp)"
    using assms by (rule shl1_minus1_pos)
  then have "0 \<le> real (read (accessFreq m)) / real_of_int (shl1_minus1 (frequencyBits rp))"
    by simp
  then show ?thesis
    using k by (simp add: frequencyFactor_def maxFreq_def double_of_nat_def double_of_int_def dsub_def)
qed

lemma utilizationFactor_le_one:
  assumes "0 < blockSize rp"
  shows "\<exists>r. utilizationFactor rp m = Finite r \<and> r \<le> 1"
proof -
  have nz: "(unsigned (blockSize rp) :: real) \<noteq> 0"
    using assms by (rule unsigned_pos_nonzero)
  have "0 \<le> real (unat (bytesUsed m)) / real (unat (blockSize rp))"
    by (rule ratio_nonneg)
  then show ?thesis
    using nz by (simp add: utilizationFactor_def double_of_uint32_def dsub_def)
qed

text \<open>The three-factor part of the score, on an invalidated line and on any line.\<close>

lemma baselineScore_invalidate:
  assumes "0 < frequencyBits rp" and "frequencyBits rp < 31" and "0 < blockSize rp" and "0 < t"
  shows "baselineScore rp t (invalidate rp m) =
           dadd (dadd (recencyWeight rp) (frequencyWeight rp)) (utilizationWeight rp)"
  by (simp add: baselineScore_def assms recencyFactor_invalidate frequencyFactor_invalidate
      utilizationFactor_invalidate dmul_one)

lemma baselineScore_le:
  assumes fb: "0 < frequencyBits rp" "frequencyBits rp < 31" and bs: "0 < blockSize rp"
    and rw: "nonneg_finite (recencyWeight rp)" and fw: "nonneg_finite (frequencyWeight rp)"
    and uw: "nonneg_finite (utilizationWeight rp)"
  shows "dle (baselineScore rp t' m')
             (dadd (dadd (recencyWeight rp) (frequencyWeight rp)) (utilizationWeight rp))"
proof -
  obtain a where a: "recencyWeight rp = Finite a" "0 \<le> a"
    using rw by (cases "recencyWeight rp") (simp_all add: nonneg_finite_def)
  obtain b where b: "frequencyWeight rp = Finite b" "0 \<le> b"
    using fw by (cases "frequencyWeight rp") (simp_all add: nonneg_finite_def)
  obtain c where c: "utilizationWeight rp = Finite c" "0 \<le> c"
    using uw by (cases "utilizationWeight rp") (simp_all add: nonneg_finite_def)
  obtain r where r: "recencyFactor t' m' = Finite r" "r \<le> 1"
    using recencyFactor_le_one by blast
  obtain f where f: "frequencyFactor rp m' = Finite f" "f \<le> 1"
    using frequencyFactor_le_one [OF fb] by blast
  obtain u where u: "utilizationFactor rp m' = Finite u" "u \<le> 1"
    using utilizationFactor_le_one [OF bs] by blast
  have "a * r \<le> a" using a r by (simp add: mult_left_le)
  moreover have "b * f \<le> b" using b f by (simp add: mult_left_le)
  moreover have "c * u \<le> c" using c u by (simp add: mult_left_le)
  ultimately have "a * r + b * f + c * u \<le> a + b + c" by linarith
  then show ?thesis
    by (simp add: baselineScore_def a b c r f u)
qed

text \<open>What \<^verbatim>\<open>reset\<close> assigns, from any state of the line.\<close>

lemma reset_fields:
  "lastTouchTick (reset rp now m) = now \<and>
   read (writeCount (reset rp now m)) = 0 \<and>
   bytesUsed (reset rp now m) = blockSize rp \<and>
   isDirty (reset rp now m) = False \<and>
   predictedReuse (reset rp now m) = 1 \<and>
   accessFreq (reset rp now m) = increment (accessFreq m)"
  by (simp add: reset_def Let_def read_def reset_counter_def)

lemma increment_from_zero:
  "counter c = 0 \<Longrightarrow> 0 < bits c \<Longrightarrow> read (increment c) = 1"
proof -
  assume z: "counter c = 0" and b: "0 < bits c"
  from b have "(2::nat) ^ 1 \<le> 2 ^ bits c"
    by (intro power_increasing) simp_all
  then have "0 < maxVal c" by (simp add: maxVal_def)
  with z show ?thesis by (simp add: increment_def read_def)
qed

text \<open>
  On a line whose access counter reads 0 (fresh, or just invalidated) and is at least
  one bit wide, \<^verbatim>\<open>reset\<close> leaves the access frequency at 1.
\<close>

lemma reset_of_cleared_line:
  "counter (accessFreq m) = 0 \<Longrightarrow> 0 < bits (accessFreq m) \<Longrightarrow>
   read (accessFreq (reset rp now m)) = 1"
  by (simp add: reset_fields increment_from_zero)

text \<open>The bound on the bytes used, along one call and along a sequence of calls.\<close>

lemma apply_operation_bytesUsed:
  "bytesUsed m \<le> blockSize rp \<Longrightarrow> within_block rp op \<Longrightarrow>
   bytesUsed (apply_operation rp op m) \<le> blockSize rp"
  by (cases op) (simp_all add: op_defs Let_def)

lemma run_operations_bytesUsed:
  "bytesUsed m \<le> blockSize rp \<Longrightarrow> list_all (within_block rp) ops \<Longrightarrow>
   bytesUsed (run_operations rp m ops) \<le> blockSize rp"
proof (induction ops arbitrary: m)
  case Nil
  then show ?case by simp
next
  case (Cons op ops)
  from Cons.prems have "bytesUsed (apply_operation rp op m) \<le> blockSize rp"
    by (simp add: apply_operation_bytesUsed)
  moreover from Cons.prems have "list_all (within_block rp) ops" by simp
  ultimately show ?case using Cons.IH by simp
qed

lemma updateUtilization_calls_mono:
  "bytesUsed m \<le> bytesUsed (updateUtilization_calls rp m calls)"
proof (induction calls arbitrary: m)
  case Nil
  show ?case by simp
next
  case (Cons c calls)
  obtain now b where c: "c = (now, b)" by (cases c)
  have "bytesUsed m \<le> bytesUsed (updateUtilization rp now m b)"
    by (simp add: updateUtilization_def Let_def)
  also have "\<dots> \<le> bytesUsed (updateUtilization_calls rp (updateUtilization rp now m b) calls)"
    by (rule Cons.IH)
  finally show ?case by (simp add: c)
qed


text \<open>The order \<^verbatim>\<open><\<close> on doubles, away from NaN.\<close>

lemma dless_irrefl: "\<not> dless a a"
  by (cases a) simp_all

lemma dless_trans: "dless a b \<Longrightarrow> dless b c \<Longrightarrow> dless a c"
  by (cases a; cases b; cases c) simp_all

lemma dless_asym: "dless a b \<Longrightarrow> \<not> dless b a"
  by (cases a; cases b) simp_all

lemma not_dless_dless: "\<not> dless a c \<Longrightarrow> dless a b \<Longrightarrow> c \<noteq> NaN \<Longrightarrow> dless c b"
  by (cases a; cases b; cases c) simp_all

lemma dle_not_dless: "dle a b \<Longrightarrow> \<not> dless a c \<Longrightarrow> c \<noteq> NaN \<Longrightarrow> \<not> dless b c"
  by (cases a; cases b; cases c) simp_all

lemma calculateEnergyCost_not_NaN: "calculateEnergyCost rp now m \<noteq> NaN"
  using dle_zero_dmax [of "rawEnergyCost rp now m"]
  by (auto simp: calculateEnergyCost_def)

text \<open>
  The loop of \<^verbatim>\<open>getVictim\<close>: it stores the recomputed cost in every candidate, and
  it either keeps the victim it was given (no candidate's cost is greater than
  \<open>maxCost\<close>) or returns the first candidate of maximal recomputed cost.
\<close>

lemma getVictim_loop_snd:
  "snd (getVictim_loop rp now cands i victim maxCost) =
     map (\<lambda>m. m\<lparr>energyCost := calculateEnergyCost rp now m\<rparr>) cands"
  by (induction cands arbitrary: i victim maxCost) (simp_all add: Let_def)

lemma getVictim_loop_fst:
  "(fst (getVictim_loop rp now cands i victim maxCost) = victim \<and>
      (\<forall>k<length cands. \<not> dless maxCost (calculateEnergyCost rp now (cands ! k))))
   \<or> (\<exists>j<length cands.
        fst (getVictim_loop rp now cands i victim maxCost) = i + j \<and>
        dless maxCost (calculateEnergyCost rp now (cands ! j)) \<and>
        (\<forall>k<length cands. \<not> dless (calculateEnergyCost rp now (cands ! j))
                                    (calculateEnergyCost rp now (cands ! k))) \<and>
        (\<forall>k<j. dless (calculateEnergyCost rp now (cands ! k))
                      (calculateEnergyCost rp now (cands ! j))))"
  (is "?P cands i victim maxCost")
proof (induction cands arbitrary: i victim maxCost)
  case Nil
  show ?case by simp
next
  case (Cons m rest)
  let ?cost = "calculateEnergyCost rp now"
  let ?c = "?cost m"
  show ?case
  proof (cases "dless maxCost ?c")
    case True
    then have r: "fst (getVictim_loop rp now (m # rest) i victim maxCost) =
        fst (getVictim_loop rp now rest (i + 1) i ?c)"
      by (simp add: Let_def)
    from Cons.IH [of "i + 1" i ?c] show ?thesis
    proof (elim disjE conjE exE)
      assume a: "fst (getVictim_loop rp now rest (i + 1) i ?c) = i"
        and b: "\<forall>k<length rest. \<not> dless ?c (?cost (rest ! k))"
      have "\<forall>k<length (m # rest). \<not> dless ?c (?cost ((m # rest) ! k))"
        using b by (auto simp: nth_Cons dless_irrefl split: nat.splits)
      then have "\<exists>j<length (m # rest).
        fst (getVictim_loop rp now (m # rest) i victim maxCost) = i + j \<and>
        dless maxCost (?cost ((m # rest) ! j)) \<and>
        (\<forall>k<length (m # rest). \<not> dless (?cost ((m # rest) ! j)) (?cost ((m # rest) ! k))) \<and>
        (\<forall>k<j. dless (?cost ((m # rest) ! k)) (?cost ((m # rest) ! j)))"
        using True r a by (intro exI [of _ 0]) simp
      then show ?thesis by blast
    next
      fix j
      assume j: "j < length rest"
        and a: "fst (getVictim_loop rp now rest (i + 1) i ?c) = i + 1 + j"
        and gt: "dless ?c (?cost (rest ! j))"
        and mx: "\<forall>k<length rest. \<not> dless (?cost (rest ! j)) (?cost (rest ! k))"
        and lt: "\<forall>k<j. dless (?cost (rest ! k)) (?cost (rest ! j))"
      have 1: "dless maxCost (?cost (rest ! j))"
        using True gt by (rule dless_trans)
      have 2: "\<forall>k<length (m # rest). \<not> dless (?cost (rest ! j)) (?cost ((m # rest) ! k))"
        using mx dless_asym [OF gt] by (auto simp: nth_Cons split: nat.splits)
      have 3: "\<forall>k<Suc j. dless (?cost ((m # rest) ! k)) (?cost (rest ! j))"
        using lt gt by (auto simp: nth_Cons split: nat.splits)
      have "\<exists>j'<length (m # rest).
        fst (getVictim_loop rp now (m # rest) i victim maxCost) = i + j' \<and>
        dless maxCost (?cost ((m # rest) ! j')) \<and>
        (\<forall>k<length (m # rest). \<not> dless (?cost ((m # rest) ! j')) (?cost ((m # rest) ! k))) \<and>
        (\<forall>k<j'. dless (?cost ((m # rest) ! k)) (?cost ((m # rest) ! j')))"
        using j r a 1 2 3 by (intro exI [of _ "Suc j"]) simp
      then show ?thesis by blast
    qed
  next
    case False
    then have r: "fst (getVictim_loop rp now (m # rest) i victim maxCost) =
        fst (getVictim_loop rp now rest (i + 1) victim maxCost)"
      by (simp add: Let_def)
    from Cons.IH [of "i + 1" victim maxCost] show ?thesis
    proof (elim disjE conjE exE)
      assume a: "fst (getVictim_loop rp now rest (i + 1) victim maxCost) = victim"
        and b: "\<forall>k<length rest. \<not> dless maxCost (?cost (rest ! k))"
      have "\<forall>k<length (m # rest). \<not> dless maxCost (?cost ((m # rest) ! k))"
        using b False by (auto simp: nth_Cons split: nat.splits)
      then show ?thesis using r a by simp
    next
      fix j
      assume j: "j < length rest"
        and a: "fst (getVictim_loop rp now rest (i + 1) victim maxCost) = i + 1 + j"
        and gt: "dless maxCost (?cost (rest ! j))"
        and mx: "\<forall>k<length rest. \<not> dless (?cost (rest ! j)) (?cost (rest ! k))"
        and lt: "\<forall>k<j. dless (?cost (rest ! k)) (?cost (rest ! j))"
      have first: "dless ?c (?cost (rest ! j))"
        using False gt calculateEnergyCost_not_NaN by (rule not_dless_dless)
      have 2: "\<forall>k<length (m # rest). \<not> dless (?cost (rest ! j)) (?cost ((m # rest) ! k))"
        using mx dless_asym [OF first] by (auto simp: nth_Cons split: nat.splits)
      have 3: "\<forall>k<Suc j. dless (?cost ((m # rest) ! k)) (?cost (rest ! j))"
        using lt first by (auto simp: nth_Cons split: nat.splits)
      have "\<exists>j'<length (m # rest).
        fst (getVictim_loop rp now (m # rest) i victim maxCost) = i + j' \<and>
        dless maxCost (?cost ((m # rest) ! j')) \<and>
        (\<forall>k<length (m # rest). \<not> dless (?cost ((m # rest) ! j')) (?cost ((m # rest) ! k))) \<and>
        (\<forall>k<j'. dless (?cost ((m # rest) ! k)) (?cost ((m # rest) ! j')))"
        using j r a gt 2 3 by (intro exI [of _ "Suc j"]) simp
      then show ?thesis by blast
    qed
  qed
qed

text \<open>
  When the cost cached in the first candidate is not greater than that candidate's
  recomputed cost, \<^verbatim>\<open>getVictim\<close> returns the first candidate of maximal recomputed
  cost, and the candidates with their costs refreshed.
\<close>

lemma getVictim_first_maximum:
  assumes ne: "candidates \<noteq> []"
    and fresh: "dle (energyCost (hd candidates)) (calculateEnergyCost rp now (hd candidates))"
  shows "\<exists>v. getVictim rp now candidates =
            Inr (v, map (\<lambda>m. m\<lparr>energyCost := calculateEnergyCost rp now m\<rparr>) candidates) \<and>
          v < length candidates \<and>
          (\<forall>k<length candidates.
             \<not> dless (calculateEnergyCost rp now (candidates ! v))
                     (calculateEnergyCost rp now (candidates ! k))) \<and>
          (\<forall>k<v. dless (calculateEnergyCost rp now (candidates ! k))
                        (calculateEnergyCost rp now (candidates ! v)))"
proof -
  let ?cost = "calculateEnergyCost rp now"
  obtain first rest where c: "candidates = first # rest"
    using ne by (cases candidates) auto
  let ?r = "getVictim_loop rp now candidates 0 0 (energyCost first)"
  have gv: "getVictim rp now candidates = Inr (fst ?r, snd ?r)"
    by (simp add: getVictim_def c)
  have sn: "snd ?r = map (\<lambda>m. m\<lparr>energyCost := ?cost m\<rparr>) candidates"
    by (rule getVictim_loop_snd)
  have len: "0 < length candidates"
    using ne by simp
  have hd0: "candidates ! 0 = first" "hd candidates = first"
    by (simp_all add: c)
  from getVictim_loop_fst [of rp now candidates 0 0 "energyCost first"]
  show ?thesis
  proof (elim disjE conjE exE)
    assume a: "fst ?r = 0"
      and b: "\<forall>k<length candidates. \<not> dless (energyCost first) (?cost (candidates ! k))"
    have mx: "\<forall>k<length candidates. \<not> dless (?cost (candidates ! 0)) (?cost (candidates ! k))"
    proof (intro allI impI)
      fix k assume "k < length candidates"
      with b have "\<not> dless (energyCost first) (?cost (candidates ! k))" by simp
      with fresh show "\<not> dless (?cost (candidates ! 0)) (?cost (candidates ! k))"
        unfolding hd0 by (rule dle_not_dless) (rule calculateEnergyCost_not_NaN)
    qed
    have "getVictim rp now candidates =
        Inr (0, map (\<lambda>m. m\<lparr>energyCost := ?cost m\<rparr>) candidates)"
      unfolding gv sn a ..
    with len mx show ?thesis by (intro exI [of _ 0]) simp
  next
    fix j
    assume j: "j < length candidates" and a: "fst ?r = 0 + j"
      and mx: "\<forall>k<length candidates. \<not> dless (?cost (candidates ! j)) (?cost (candidates ! k))"
      and lt: "\<forall>k<j. dless (?cost (candidates ! k)) (?cost (candidates ! j))"
    have "getVictim rp now candidates =
        Inr (j, map (\<lambda>m. m\<lparr>energyCost := ?cost m\<rparr>) candidates)"
      unfolding gv sn a by simp
    with j mx lt show ?thesis by (intro exI [of _ j]) simp
  qed
qed


section \<open>Victim selection (claim C1)\<close>

text \<open>
  Claim C1: for every non-empty candidate list, \<^verbatim>\<open>getVictim\<close> returns the candidate
  whose freshly recomputed cost is maximal, the cost of every candidate (the first
  included) being recomputed against the current clock and any cached value ignored.

  The source reads the initial \<open>maxCost\<close> from the first candidate's cached
  \<^verbatim>\<open>energyCost\<close>. Under \<open>negative_recency_config\<close> line A is filled at tick 100 and
  line B is filled at tick 100 and hit at tick 200. At tick 400 the recomputed cost of A
  is \<open>37/600\<close> and that of B is \<open>67/300\<close>, which is greater; but the cost cached in A
  at tick 100 is \<open>43/150\<close>, greater than both, and \<^verbatim>\<open>getVictim\<close> on \<open>[A, B]\<close> returns
  position 0, that is A.
\<close>

theorem getVictim_keeps_stale_first_candidate:
  "map_sum id fst (getVictim negative_recency_config 400 [lineA, lineB]) = Inr 0
   \<and> energyCost lineA = Finite (43 / 150)
   \<and> calculateEnergyCost negative_recency_config 400 lineA = Finite (37 / 600)
   \<and> calculateEnergyCost negative_recency_config 400 lineB = Finite (67 / 300)
   \<and> dless (calculateEnergyCost negative_recency_config 400 lineA)
            (calculateEnergyCost negative_recency_config 400 lineB)"
  by (simp add: lineA_def lineB_def negative_recency_config_def getVictim_def spec_config_def
      op_defs cost_defs factor_defs cast_defs counter_defs Let_def)


section \<open>The end-to-end vector (claim C2)\<close>

text \<open>
  Claim C2, as amended: with the configuration of the spec's vector, after \<^verbatim>\<open>reset\<close> at
  tick 100 the line has access frequency 1, 64 bytes used, is clean, and its recomputed
  cost is approximately 0.2867; after a following \<^verbatim>\<open>touch\<close> at tick 200 it has access
  frequency 2 and last touch tick 200, and its cost recomputed at tick 200 (which is also
  the cost \<^verbatim>\<open>touch\<close> stores) is approximately 0.3733: \<^verbatim>\<open>touch\<close> sets the last touch
  tick before it computes the cost, so the recency factor is 0.
\<close>

theorem end_to_end_vector:
  "read (accessFreq line_after_reset) = 1 \<and>
   bytesUsed line_after_reset = 64 \<and>
   isDirty line_after_reset = False \<and>
   approx4 (calculateEnergyCost spec_config 100 line_after_reset) (2867 / 10000) \<and>
   read (accessFreq line_after_touch) = 2 \<and>
   lastTouchTick line_after_touch = 200 \<and>
   recencyFactor 200 line_after_touch = Finite 0 \<and>
   energyCost line_after_touch = calculateEnergyCost spec_config 200 line_after_touch \<and>
   approx4 (calculateEnergyCost spec_config 200 line_after_touch) (3733 / 10000)"
  by (simp add: line_after_touch_eq line_after_reset_eq approx4_def spec_config_def
      cost_defs factor_defs cast_defs counter_defs)

text \<open>
  The claim as stated gives 0.5233 for the cost after the touch, with a recency factor of
  \<open>(200 - 100) / 200\<close>; the cost is \<open>28/75\<close> and the recency factor is 0.
\<close>

theorem touch_cost_is_not_0_5233:
  "\<not> approx4 (calculateEnergyCost spec_config 200 line_after_touch) (5233 / 10000)
   \<and> calculateEnergyCost spec_config 200 line_after_touch = Finite (28 / 75)
   \<and> recencyFactor 200 line_after_touch \<noteq> Finite (1 / 2)"
  by (simp add: line_after_touch_eq approx4_def spec_config_def
      cost_defs factor_defs cast_defs counter_defs)


section \<open>Construction (claim C3)\<close>

text \<open>
  Claim C3, as amended: construction performs no validation. Every parameter set is
  accepted and copied unchanged into the policy; with \<open>frequency_bits = 0\<close> the
  divisor \<open>maxFreq\<close> of the cost formula is 0, and with \<open>write_bits = 0\<close> the
  divisor \<open>maxWrites\<close> is 0, so the division by zero happens when the cost is computed.
\<close>

theorem create_accepts_every_configuration:
  "create p = Inr (EnergyAwareRP_new p) \<and>
   frequencyBits (EnergyAwareRP_new p) = frequency_bits p \<and>
   writeBits (EnergyAwareRP_new p) = write_bits p \<and>
   (frequency_bits p = 0 \<longrightarrow> maxFreq (EnergyAwareRP_new p) = Finite 0) \<and>
   (write_bits p = 0 \<longrightarrow> maxWrites (EnergyAwareRP_new p) = Finite 0)"
  by (simp add: create_def EnergyAwareRP_new_def factor_defs cast_defs)

theorem create_accepts_every_configuration_witness:
  "frequency_bits zero_bits_params = 0 \<and> write_bits zero_bits_params = 0 \<and>
   create zero_bits_params = Inr (EnergyAwareRP_new zero_bits_params) \<and>
   maxFreq (EnergyAwareRP_new zero_bits_params) = Finite 0 \<and>
   maxWrites (EnergyAwareRP_new zero_bits_params) = Finite 0"
  using create_accepts_every_configuration [of zero_bits_params]
  by (simp add: zero_bits_params_def)

text \<open>
  The claim as stated has a configuration with zero-width counters rejected at
  construction. \<open>zero_bits_params\<close> is constructed, and the frequency factor of a
  line instantiated under it is the NaN of \<open>0 / 0\<close>; the clamp then returns 0.
\<close>

theorem zero_bits_configuration_is_constructed:
  "\<not> isl (create zero_bits_params) \<and>
   frequencyBits (projr (create zero_bits_params)) = 0 \<and>
   writeBits (projr (create zero_bits_params)) = 0 \<and>
   frequencyFactor (projr (create zero_bits_params))
     (instantiateEntry (projr (create zero_bits_params))) = NaN \<and>
   calculateEnergyCost (projr (create zero_bits_params)) 100
     (instantiateEntry (projr (create zero_bits_params))) = Finite 0"
  by (simp add: create_def zero_bits_params_def EnergyAwareRP_new_def op_defs cost_defs
      factor_defs cast_defs counter_defs)


section \<open>Reset (claim C4)\<close>

text \<open>
  Claim C4: after \<^verbatim>\<open>reset\<close>, from any prior state, the access frequency is 1 (and the
  last touch tick is \<open>now\<close>, the write count 0, the bytes used the block size, the line
  clean).

  \<^verbatim>\<open>reset\<close> increments the access counter and does not clear it. On the line of the
  end-to-end vector, filled at tick 100 and hit at tick 200, a \<^verbatim>\<open>reset\<close> at tick 300
  leaves the access frequency at 3; the other four fields are as the claim says.
\<close>

theorem reset_of_valid_line_counts_on:
  "read (accessFreq (reset spec_config 300 line_after_touch)) = 3 \<and>
   lastTouchTick (reset spec_config 300 line_after_touch) = 300 \<and>
   read (writeCount (reset spec_config 300 line_after_touch)) = 0 \<and>
   bytesUsed (reset spec_config 300 line_after_touch) = blockSize spec_config \<and>
   isDirty (reset spec_config 300 line_after_touch) = False"
  by (simp add: line_after_touch_eq reset_def counter_defs Let_def)


section \<open>The bound on the bytes used (claim C5)\<close>

text \<open>
  Claim C5, as amended: \<open>bytesUsed \<le> blockSize\<close> holds for every line after
  instantiation and is preserved by \<^verbatim>\<open>reset\<close>, \<^verbatim>\<open>touch\<close>, \<^verbatim>\<open>invalidate\<close>,
  \<^verbatim>\<open>updateWriteStats\<close> and \<^verbatim>\<open>setDirtyStatus\<close>, and by \<^verbatim>\<open>updateUtilization\<close> when its
  byte count is at most the block size.
\<close>

theorem bytesUsed_bound_preserved:
  "bytesUsed (instantiateEntry rp) \<le> blockSize rp \<and>
   (bytesUsed m \<le> blockSize rp \<and> within_block rp op \<longrightarrow>
      bytesUsed (apply_operation rp op m) \<le> blockSize rp)"
proof (intro conjI impI)
  show "bytesUsed (instantiateEntry rp) \<le> blockSize rp"
    by (simp add: instantiateEntry_def EnergyAwareReplData_new_def)
next
  assume "bytesUsed m \<le> blockSize rp \<and> within_block rp op"
  then show "bytesUsed (apply_operation rp op m) \<le> blockSize rp"
    by (simp add: apply_operation_bytesUsed)
qed

theorem bytesUsed_bound_preserved_witness:
  "bytesUsed line_after_reset \<le> blockSize spec_config \<and>
   within_block spec_config (UpdateUtilization 200 32) \<and>
   bytesUsed (apply_operation spec_config (UpdateUtilization 200 32) line_after_reset)
     \<le> blockSize spec_config"
  using bytesUsed_bound_preserved [of spec_config line_after_reset "UpdateUtilization 200 32"]
  by (simp add: line_after_reset_eq spec_config_def)

text \<open>
  The claim as stated lets \<^verbatim>\<open>updateUtilization\<close> take any byte count; the source takes
  the maximum and does not clamp it to the block size.
\<close>

theorem updateUtilization_exceeds_blockSize:
  "bytesUsed line_after_reset \<le> blockSize spec_config \<and>
   \<not> bytesUsed (updateUtilization spec_config 200 line_after_reset 100) \<le> blockSize spec_config"
  by (simp add: line_after_reset_eq updateUtilization_def Let_def spec_config_def)


section \<open>The clamp (claim C6)\<close>

text \<open>
  Claim C6: for every line, every configuration with positive \<open>frequencyBits\<close>,
  \<open>writeBits\<close> and \<open>blockSize\<close>, and every tick, the cost is greater than or equal
  to 0 (so it is not a NaN either).
\<close>

theorem calculateEnergyCost_nonnegative:
  "0 < frequencyBits rp \<Longrightarrow> 0 < writeBits rp \<Longrightarrow> 0 < blockSize rp \<Longrightarrow>
   dle (Finite 0) (calculateEnergyCost rp now m)"
  by (simp add: calculateEnergyCost_def dle_zero_dmax)

theorem calculateEnergyCost_nonnegative_witness:
  "0 < frequencyBits spec_config \<and> 0 < writeBits spec_config \<and> 0 < blockSize spec_config \<and>
   dle (Finite 0) (calculateEnergyCost spec_config 200 line_after_touch)"
  using calculateEnergyCost_nonnegative [of spec_config 200 line_after_touch]
  by (simp add: spec_config_def)


section \<open>Touch (claim C7)\<close>

text \<open>
  Claim C7: \<^verbatim>\<open>touch\<close> leaves the write count, the bytes used and the dirty flag
  unchanged, sets the last touch tick to \<open>now\<close>, and increments the access frequency by
  exactly 1 unless the counter is already at its maximum.
\<close>

theorem touch_frame:
  "writeCount (touch rp now m) = writeCount m \<and>
   bytesUsed (touch rp now m) = bytesUsed m \<and>
   isDirty (touch rp now m) = isDirty m \<and>
   lastTouchTick (touch rp now m) = now \<and>
   read (accessFreq (touch rp now m)) =
     (if read (accessFreq m) < maxVal (accessFreq m)
      then read (accessFreq m) + 1 else read (accessFreq m))"
  by (simp add: touch_def Let_def increment_def read_def)


section \<open>The clock at zero (claim C8)\<close>

text \<open>
  Claim C8: at tick 0 the guard \<open>currentTick > lastTouchTick\<close> is false for every line
  (ticks are unsigned), so the division by the current tick is not reached and the
  recency factor is 0.
\<close>

theorem recencyFactor_at_tick_zero:
  "\<not> (0 > lastTouchTick m) \<and> recencyFactor 0 m = Finite 0"
  by (simp add: recencyFactor_def)


section \<open>Utilization (claim C9)\<close>

text \<open>
  Claim C9: after each \<^verbatim>\<open>updateUtilization\<close> call the bytes used are the maximum of
  their previous value and the byte count of the call, so they never decrease, across
  any sequence of calls with arbitrary byte counts.
\<close>

theorem updateUtilization_monotone:
  "bytesUsed (updateUtilization rp now m b) = max (bytesUsed m) b \<and>
   bytesUsed m \<le> bytesUsed (updateUtilization rp now m b) \<and>
   bytesUsed m \<le> bytesUsed (updateUtilization_calls rp m calls)"
  by (simp add: updateUtilization_calls_mono) (simp add: updateUtilization_def Let_def)


section \<open>The cost of an invalidated line (claim C10)\<close>

text \<open>
  Claim C10, as amended: for a line that has just been invalidated, under a
  configuration with counter widths between 1 and 30, a positive block size and finite
  write weight, dirty weight, read cost and write cost, the cost at any tick \<open>t > 0\<close>
  is exactly \<open>max(0, recencyWeight + frequencyWeight + utilizationWeight)\<close>: the
  recency, frequency and utilization factors are 1 and the write intensity, the dirty
  factor, the future write cost and the write-back cost are 0. When the recency,
  frequency and utilization weights are moreover finite and not negative, that sum is
  the greatest value the three-factor part of the score takes on any line at any tick.
\<close>

theorem invalidated_line_cost:
  assumes "0 < frequencyBits rp" and "frequencyBits rp < 31"
    and "0 < writeBits rp" and "writeBits rp < 31"
    and "0 < blockSize rp"
    and "is_finite (writeWeight rp)" and "is_finite (dirtyWeight rp)"
    and "is_finite (pcmReadCost rp)" and "is_finite (pcmWriteCost rp)"
    and "0 < t"
  shows "calculateEnergyCost rp t (invalidate rp m) =
           dmax (Finite 0)
             (dadd (dadd (recencyWeight rp) (frequencyWeight rp)) (utilizationWeight rp))
         \<and> recencyFactor t (invalidate rp m) = Finite 1
         \<and> frequencyFactor rp (invalidate rp m) = Finite 1
         \<and> utilizationFactor rp (invalidate rp m) = Finite 1
         \<and> writeIntensity rp (invalidate rp m) = Finite 0
         \<and> dirtyFactor (invalidate rp m) = Finite 0
         \<and> futureWriteCost rp (invalidate rp m) = Finite 0
         \<and> writeBackCost rp (invalidate rp m) = Finite 0
         \<and> baselineScore rp t (invalidate rp m) =
             dadd (dadd (recencyWeight rp) (frequencyWeight rp)) (utilizationWeight rp)
         \<and> (nonneg_finite (recencyWeight rp) \<and> nonneg_finite (frequencyWeight rp) \<and>
              nonneg_finite (utilizationWeight rp) \<longrightarrow>
              (\<forall>t' m'. dle (baselineScore rp t' m') (baselineScore rp t (invalidate rp m))))"
proof -
  obtain rc where rc: "pcmReadCost rp = Finite rc"
    using assms(8) by (cases "pcmReadCost rp") (simp_all add: is_finite_def)
  obtain wc where wc: "pcmWriteCost rp = Finite wc"
    using assms(9) by (cases "pcmWriteCost rp") (simp_all add: is_finite_def)
  have fr: "futureReadCost rp (invalidate rp m) = Finite 0"
    using rc by (rule futureReadCost_invalidate)
  have fwc: "futureWriteCost rp (invalidate rp m) = Finite 0"
    using wc by (rule futureWriteCost_invalidate)
  have base: "baselineScore rp t (invalidate rp m) =
      dadd (dadd (recencyWeight rp) (frequencyWeight rp)) (utilizationWeight rp)"
    using assms by (simp add: baselineScore_invalidate)
  have raw: "rawEnergyCost rp t (invalidate rp m) =
      dadd (dadd (recencyWeight rp) (frequencyWeight rp)) (utilizationWeight rp)"
    unfolding rawEnergyCost_def
    by (simp add: assms recencyFactor_invalidate frequencyFactor_invalidate
        writeIntensity_invalidate utilizationFactor_invalidate dirtyFactor_invalidate
        writeBackCost_invalidate fr fwc dsub_def dmul_one dadd_zero dmul_finite_zero)
  have mx: "nonneg_finite (recencyWeight rp) \<and> nonneg_finite (frequencyWeight rp) \<and>
      nonneg_finite (utilizationWeight rp) \<longrightarrow>
      (\<forall>t' m'. dle (baselineScore rp t' m') (baselineScore rp t (invalidate rp m)))"
    unfolding base using assms by (simp add: baselineScore_le)
  show ?thesis
    using mx
    by (simp add: calculateEnergyCost_def raw base assms recencyFactor_invalidate
        frequencyFactor_invalidate writeIntensity_invalidate utilizationFactor_invalidate
        dirtyFactor_invalidate writeBackCost_invalidate fwc)
qed

theorem invalidated_line_cost_witness:
  "calculateEnergyCost spec_config 400 (invalidate spec_config line_after_touch) = Finite (3 / 5)
   \<and> recencyFactor 400 (invalidate spec_config line_after_touch) = Finite 1
   \<and> baselineScore spec_config 400 (invalidate spec_config line_after_touch) = Finite (3 / 5)
   \<and> dle (baselineScore spec_config 400 line_after_touch)
          (baselineScore spec_config 400 (invalidate spec_config line_after_touch))"
proof -
  have h: "0 < frequencyBits spec_config" "frequencyBits spec_config < 31"
    "0 < writeBits spec_config" "writeBits spec_config < 31"
    "0 < blockSize spec_config"
    "is_finite (writeWeight spec_config)" "is_finite (dirtyWeight spec_config)"
    "is_finite (pcmReadCost spec_config)" "is_finite (pcmWriteCost spec_config)"
    "0 < (400 :: Tick)"
    by (simp_all add: spec_config_def is_finite_def)
  have w: "nonneg_finite (recencyWeight spec_config) \<and>
      nonneg_finite (frequencyWeight spec_config) \<and>
      nonneg_finite (utilizationWeight spec_config)"
    by (simp add: spec_config_def nonneg_finite_def)
  note c = invalidated_line_cost [OF h, of line_after_touch]
  from c have "calculateEnergyCost spec_config 400 (invalidate spec_config line_after_touch) =
      dmax (Finite 0)
        (dadd (dadd (recencyWeight spec_config) (frequencyWeight spec_config))
              (utilizationWeight spec_config))"
    by (rule conjunct1)
  then have 1: "calculateEnergyCost spec_config 400 (invalidate spec_config line_after_touch) =
      Finite (3 / 5)"
    by (simp add: spec_config_def dmax_def)
  from c have 2: "recencyFactor 400 (invalidate spec_config line_after_touch) = Finite 1"
    by blast
  from c have "baselineScore spec_config 400 (invalidate spec_config line_after_touch) =
      dadd (dadd (recencyWeight spec_config) (frequencyWeight spec_config))
           (utilizationWeight spec_config)"
    by blast
  then have 3: "baselineScore spec_config 400 (invalidate spec_config line_after_touch) =
      Finite (3 / 5)"
    by (simp add: spec_config_def)
  from c w have "\<forall>t' m'. dle (baselineScore spec_config t' m')
      (baselineScore spec_config 400 (invalidate spec_config line_after_touch))"
    by blast
  then have 4: "dle (baselineScore spec_config 400 line_after_touch)
      (baselineScore spec_config 400 (invalidate spec_config line_after_touch))"
    by blast
  from 1 2 3 4 show ?thesis by blast
qed

text \<open>
  The claim as stated puts no condition on the configuration. Under
  \<open>zero_bits_config\<close>, which the constructor accepts, the frequency factor of an
  invalidated line is the NaN of \<open>0 / 0\<close> and its cost is 0, not the \<open>3/5\<close> of the
  three weights. Under \<open>negative_recency_config\<close> the invalidated line A has a
  three-factor score of 0 and a cost of 0, both less than those of the valid line B, so
  its score is not the maximal one.
\<close>

theorem invalidated_line_cost_needs_valid_configuration:
  "calculateEnergyCost zero_bits_config 100
       (invalidate zero_bits_config (instantiateEntry zero_bits_config))
     \<noteq> dmax (Finite 0)
         (dadd (dadd (recencyWeight zero_bits_config) (frequencyWeight zero_bits_config))
               (utilizationWeight zero_bits_config))
   \<and> calculateEnergyCost zero_bits_config 100
       (invalidate zero_bits_config (instantiateEntry zero_bits_config)) = Finite 0
   \<and> dmax (Finite 0)
        (dadd (dadd (recencyWeight zero_bits_config) (frequencyWeight zero_bits_config))
              (utilizationWeight zero_bits_config)) = Finite (3 / 5)
   \<and> frequencyFactor zero_bits_config
        (invalidate zero_bits_config (instantiateEntry zero_bits_config)) = NaN
   \<and> baselineScore negative_recency_config 400 (invalidate negative_recency_config lineA)
        = Finite 0
   \<and> baselineScore negative_recency_config 400 lineB = Finite (7 / 300)
   \<and> dless (baselineScore negative_recency_config 400
               (invalidate negative_recency_config lineA))
            (baselineScore negative_recency_config 400 lineB)
   \<and> calculateEnergyCost negative_recency_config 400
        (invalidate negative_recency_config lineA) = Finite 0
   \<and> calculateEnergyCost negative_recency_config 400 lineB = Finite (67 / 300)"
  by (simp add: zero_bits_config_def zero_bits_params_def EnergyAwareRP_new_def
      baselineScore_def lineA_def lineB_def negative_recency_config_def spec_config_def
      op_defs cost_defs factor_defs cast_defs counter_defs Let_def)

end
